theory Spec2Isabelle
  imports Complex_Main "HOL-Library.Sublist"
begin

section \<open>Python values shared by the three modules\<close>

text \<open>
  Strings are \<open>char list\<close>s. The substring test \<^verbatim>\<open>needle in haystack\<close>,
  \<^verbatim>\<open>str.lower\<close>, \<^verbatim>\<open>str.split(sep)\<close> and \<^verbatim>\<open>str.strip\<close> are written out on ASCII
  text; \<^verbatim>\<open>str.startswith\<close> is \<open>prefix\<close>. An upper-case ASCII letter (codes 65 to 90)
  becomes lower case by setting bit 5 of its code, which adds 32. \<open>truthy\<close> is the truth
  value Python gives an optional string: false for \<^verbatim>\<open>None\<close> and for the empty string.
\<close>

definition truthy :: "string option \<Rightarrow> bool" where
  "truthy v = (case v of None \<Rightarrow> False | Some s \<Rightarrow> s \<noteq> [])"

fun py_in :: "string \<Rightarrow> string \<Rightarrow> bool" where
  "py_in needle [] = (needle = [])"
| "py_in needle (c # cs) = (prefix needle (c # cs) \<or> py_in needle cs)"

definition lower_char :: "char \<Rightarrow> char" where
  "lower_char c =
     (if 65 \<le> (of_char c :: nat) \<and> (of_char c :: nat) \<le> 90
      then (case c of Char b0 b1 b2 b3 b4 b5 b6 b7 \<Rightarrow> Char b0 b1 b2 b3 b4 True b6 b7)
      else c)"

definition lower :: "string \<Rightarrow> string" where
  "lower s = map lower_char s"

text \<open>
  Exceptions are values. Every \<^verbatim>\<open>raise\<close> of the source is an \<open>Inl\<close> of the model, and a
  handler is a case distinction on the constructor.
\<close>

datatype exn =
    YubiKeyError string
  | VaultCryptoError string
  | FileNotFoundError string
  | CalledProcessError nat string string
  | UnicodeDecodeError
  | IndexError
  | OSError string

section \<open>The host: files, environment variables, external tools\<close>

text \<open>
  \<open>proc_result\<close> is what starting an executable gives: it ran and exited with a return
  code, its standard output and its standard error, or it was not found on the search
  path (Python's \<^verbatim>\<open>FileNotFoundError\<close>). \<open>read_result\<close> is what opening and reading
  \<^verbatim>\<open>/proc/version\<close> gives, with the two failures the source handles. The host also
  decodes UTF-8 (\<open>None\<close> where Python raises \<^verbatim>\<open>UnicodeDecodeError\<close>), names the next
  temporary file, and tells what \<^verbatim>\<open>age-keygen -o path\<close> leaves at \<open>path\<close> and which mode
  a newly created file gets. Writing a text to the temporary file and closing it either
  succeeds or raises \<^verbatim>\<open>OSError\<close> (a full disk, say) with part of the text left in the
  file: \<open>WriteFailed left error\<close>. \<open>unlink_denied\<close> tells for which existing paths the
  system refuses \<^verbatim>\<open>os.unlink\<close>.
\<close>

datatype proc_result = Exited nat string string | NotFound

datatype write_result = Written | WriteFailed string string

datatype read_result = Content string | NoSuchFile | PermissionDenied

record host =
  proc_version :: read_result
  environ :: "string \<rightharpoonup> string"
  run :: "string list \<Rightarrow> string \<Rightarrow> proc_result"
  decode_utf8 :: "string \<Rightarrow> string option"
  temp_name :: string
  temp_write :: "string \<Rightarrow> write_result"
  unlink_denied :: "string \<Rightarrow> bool"
  keygen_writes :: "string \<Rightarrow> (string \<times> nat) option"
  new_file_mode :: nat

text \<open>The trace is the list of the command lines started so far, oldest first.\<close>

type_synonym trace = "string list list"

type_synonym completed = "nat \<times> string \<times> string"

text \<open>
  \<^verbatim>\<open>subprocess.run(argv, input=..., capture_output=True, check=...)\<close>: a missing
  executable raises \<^verbatim>\<open>FileNotFoundError\<close>; with \<^verbatim>\<open>check=True\<close> a non-zero return code
  raises \<^verbatim>\<open>CalledProcessError\<close>.
\<close>

definition subprocess_run ::
  "host \<Rightarrow> string list \<Rightarrow> string \<Rightarrow> bool \<Rightarrow> trace \<Rightarrow> (exn + completed) \<times> trace" where
  "subprocess_run h argv inp check tr =
     (case run h argv inp of
        NotFound \<Rightarrow> (Inl (FileNotFoundError (hd argv)), tr @ [argv])
      | Exited rc out err \<Rightarrow>
          if check \<and> rc \<noteq> 0 then (Inl (CalledProcessError rc out err), tr @ [argv])
          else (Inr (rc, out, err), tr @ [argv]))"

section \<open>nakimi/core/yubikey.py: environment detection\<close>

text \<open>
  \<^verbatim>\<open>is_wsl2\<close> checks three signals in order and returns at the first that matches:
  \<^verbatim>\<open>/proc/version\<close>, the output of \<^verbatim>\<open>uname -r\<close>, the variable \<^verbatim>\<open>WSL_DISTRO_NAME\<close>.
  Both exceptions \<open>subprocess_run\<close> can raise are caught by the source's
  \<^verbatim>\<open>except (subprocess.SubprocessError, FileNotFoundError)\<close>.
\<close>

definition is_wsl2 :: "host \<Rightarrow> trace \<Rightarrow> bool \<times> trace" where
  "is_wsl2 h tr =
     (if (case proc_version h of
            Content s \<Rightarrow> py_in ''microsoft'' (lower s)
          | NoSuchFile \<Rightarrow> False
          | PermissionDenied \<Rightarrow> False)
      then (True, tr)
      else
        (case subprocess_run h [''uname'', ''-r''] [] False tr of
           (Inr (rc, out, err), tr') \<Rightarrow>
             if py_in ''microsoft'' (lower out) then (True, tr')
             else if truthy (environ h ''WSL_DISTRO_NAME'') then (True, tr')
             else (False, tr')
         | (Inl e, tr') \<Rightarrow>
             if truthy (environ h ''WSL_DISTRO_NAME'') then (True, tr') else (False, tr')))"

text \<open>The three host signals, each stated on its own.\<close>

definition kernel_version_signal :: "host \<Rightarrow> bool" where
  "kernel_version_signal h =
     (case proc_version h of Content s \<Rightarrow> py_in ''microsoft'' (lower s) | _ \<Rightarrow> False)"

definition kernel_release_signal :: "host \<Rightarrow> bool" where
  "kernel_release_signal h =
     (case run h [''uname'', ''-r''] [] of
        Exited rc out err \<Rightarrow> py_in ''microsoft'' (lower out)
      | NotFound \<Rightarrow> False)"

definition marker_variable_signal :: "host \<Rightarrow> bool" where
  "marker_variable_signal h =
     (case environ h ''WSL_DISTRO_NAME'' of None \<Rightarrow> False | Some v \<Rightarrow> v \<noteq> [])"

definition wsl2_env :: "host \<Rightarrow> bool" where
  "wsl2_env h = (kernel_version_signal h \<or> kernel_release_signal h \<or> marker_variable_signal h)"

definition is_wsl2_cmds :: "host \<Rightarrow> trace" where
  "is_wsl2_cmds h = (if kernel_version_signal h then [] else [[''uname'', ''-r'']])"

section \<open>nakimi/core/yubikey.py: the manager\<close>

text \<open>
  \<^verbatim>\<open>str.strip()\<close> removes leading and trailing ASCII whitespace; \<^verbatim>\<open>str.split(sep)\<close>
  with a one-character separator always returns at least one piece.
\<close>

definition is_space :: "char \<Rightarrow> bool" where
  "is_space c = (let n = (of_char c :: nat) in (9 \<le> n \<and> n \<le> 13) \<or> (28 \<le> n \<and> n \<le> 32))"

definition strip :: "string \<Rightarrow> string" where
  "strip s = rev (dropWhile is_space (rev (dropWhile is_space s)))"

fun split_on :: "char \<Rightarrow> string \<Rightarrow> string list" where
  "split_on sep [] = [[]]"
| "split_on sep (c # cs) =
     (if c = sep then [] # split_on sep cs
      else (case split_on sep cs of
              w # ws \<Rightarrow> (c # w) # ws
            | [] \<Rightarrow> [[c]]))"

text \<open>
  The manager holds the configuration it reads (slot, feature flag) and its two memo
  fields, \<^verbatim>\<open>_ykman_available\<close> and \<^verbatim>\<open>_yubikey_present\<close>, both \<^verbatim>\<open>None\<close> after
  \<^verbatim>\<open>__init__\<close>.
\<close>

record manager =
  yubikey_slot :: string
  yubikey_enabled :: bool
  ykman_available :: "bool option"
  yubikey_present :: "bool option"

definition new_manager :: "string \<Rightarrow> bool \<Rightarrow> manager" where
  "new_manager slot enabled =
     \<lparr>yubikey_slot = slot, yubikey_enabled = enabled,
      ykman_available = None, yubikey_present = None\<rparr>"

definition check_ykman_installed :: "host \<Rightarrow> manager \<Rightarrow> trace \<Rightarrow> bool \<times> manager \<times> trace" where
  "check_ykman_installed h m tr =
     (case ykman_available m of
        Some b \<Rightarrow> (b, m, tr)
      | None \<Rightarrow>
          (case subprocess_run h [''ykman'', ''--version''] [] True tr of
             (Inr r, tr') \<Rightarrow> (True, m\<lparr>ykman_available := Some True\<rparr>, tr')
           | (Inl e, tr') \<Rightarrow> (False, m\<lparr>ykman_available := Some False\<rparr>, tr')))"

text \<open>
  \<^verbatim>\<open>_check_yubikey_present_wsl2\<close>: the loop over the two builds, the Windows one first;
  the first successful version query returns true.
\<close>

fun version_probe_loop :: "host \<Rightarrow> string list \<Rightarrow> trace \<Rightarrow> bool \<times> trace" where
  "version_probe_loop h [] tr = (False, tr)"
| "version_probe_loop h (cmd # cmds) tr =
     (case subprocess_run h [cmd, ''--version''] [] True tr of
        (Inr r, tr') \<Rightarrow> (True, tr')
      | (Inl e, tr') \<Rightarrow> version_probe_loop h cmds tr')"

definition check_yubikey_present_wsl2 :: "host \<Rightarrow> trace \<Rightarrow> bool \<times> trace" where
  "check_yubikey_present_wsl2 h tr =
     version_probe_loop h [''age-plugin-yubikey.exe'', ''age-plugin-yubikey''] tr"

definition check_age_plugin_installed :: "host \<Rightarrow> trace \<Rightarrow> bool \<times> trace" where
  "check_age_plugin_installed h tr =
     (case subprocess_run h [''age-plugin-yubikey'', ''--version''] [] True tr of
        (Inr r, tr1) \<Rightarrow> (True, tr1)
      | (Inl e, tr1) \<Rightarrow>
          (case subprocess_run h [''age-plugin-yubikey.exe'', ''--version''] [] True tr1 of
             (Inr r, tr2) \<Rightarrow> (True, tr2)
           | (Inl e', tr2) \<Rightarrow> (False, tr2)))"

text \<open>
  \<^verbatim>\<open>_check_yubikey_present\<close>. A memoized answer is returned at once. Otherwise the result
  of the detection is stored in \<^verbatim>\<open>_yubikey_present\<close> on every path that returns. The
  \<^verbatim>\<open>try\<close> around \<^verbatim>\<open>ykman info\<close> catches \<^verbatim>\<open>CalledProcessError\<close> only, so a
  \<^verbatim>\<open>FileNotFoundError\<close> there leaves the function as an exception.
\<close>

definition pcsc_unavailable :: "string \<Rightarrow> bool" where
  "pcsc_unavailable stderr =
     (py_in ''PC/SC not available'' stderr \<or> py_in ''Smart card (CCID) protocols'' stderr)"

definition check_yubikey_present ::
  "host \<Rightarrow> manager \<Rightarrow> trace \<Rightarrow> (exn + bool) \<times> manager \<times> trace" where
  "check_yubikey_present h m tr =
     (case yubikey_present m of
        Some b \<Rightarrow> (Inr b, m, tr)
      | None \<Rightarrow>
          (case check_ykman_installed h m tr of (ykman, m1, tr1) \<Rightarrow>
             if ykman then
               (case subprocess_run h [''ykman'', ''info''] [] True tr1 of
                  (Inr r, tr2) \<Rightarrow> (Inr True, m1\<lparr>yubikey_present := Some True\<rparr>, tr2)
                | (Inl (CalledProcessError rc out err), tr2) \<Rightarrow>
                    (case is_wsl2 h tr2 of (wsl, tr3) \<Rightarrow>
                       if wsl \<and> pcsc_unavailable err then
                         (case check_yubikey_present_wsl2 h tr3 of (found, tr4) \<Rightarrow>
                            if found then (Inr True, m1\<lparr>yubikey_present := Some True\<rparr>, tr4)
                            else (Inr False, m1\<lparr>yubikey_present := Some False\<rparr>, tr4))
                       else (Inr False, m1\<lparr>yubikey_present := Some False\<rparr>, tr3))
                | (Inl e, tr2) \<Rightarrow> (Inl e, m1, tr2))
             else
               (case is_wsl2 h tr1 of (wsl, tr2) \<Rightarrow>
                  if wsl then
                    (case check_age_plugin_installed h tr2 of (plugin, tr3) \<Rightarrow>
                       if plugin then
                         (case check_yubikey_present_wsl2 h tr3 of (found, tr4) \<Rightarrow>
                            if found then (Inr True, m1\<lparr>yubikey_present := Some True\<rparr>, tr4)
                            else (Inr False, m1\<lparr>yubikey_present := Some False\<rparr>, tr4))
                       else (Inr False, m1\<lparr>yubikey_present := Some False\<rparr>, tr3))
                  else (Inr False, m1\<lparr>yubikey_present := Some False\<rparr>, tr2))))"

text \<open>
  The two lookups that exist in a native and a Windows build. The candidate order
  depends on the environment. In the loop a missing executable moves on to the next
  candidate; a non-zero exit is remembered in \<^verbatim>\<open>last_error\<close> and, inside WSL2, also
  moves on, while outside WSL2 it raises. The loop functions return \<open>Inl\<close> of the
  function's outcome when the loop body returned or raised, and \<open>Inr last_error\<close> when the
  loop ran to its end.
\<close>

definition plugin_commands :: "bool \<Rightarrow> string list" where
  "plugin_commands wsl =
     (if wsl then [''age-plugin-yubikey.exe'', ''age-plugin-yubikey'']
      else [''age-plugin-yubikey'', ''age-plugin-yubikey.exe''])"

definition not_found_message :: string where
  "not_found_message =
     ''age-plugin-yubikey not found. Install it from https://github.com/str4d/age-plugin-yubikey''"

fun recipient_loop ::
  "host \<Rightarrow> string \<Rightarrow> string list \<Rightarrow> string option \<Rightarrow> trace
     \<Rightarrow> ((exn + string) + string option) \<times> trace" where
  "recipient_loop h slot [] last_error tr = (Inr last_error, tr)"
| "recipient_loop h slot (cmd # cmds) last_error tr =
     (case subprocess_run h [cmd, ''--list'', ''--slot'', slot] [] True tr of
        (Inr (rc, out, err), tr1) \<Rightarrow>
          (case find (prefix ''age1yubikey1'') (split_on (CHR 0x0A) out) of
             Some line \<Rightarrow> (Inl (Inr (strip line)), tr1)
           | None \<Rightarrow>
               (Inl (Inl (YubiKeyError (''No recipient found in '' @ cmd @ '' output''))), tr1))
      | (Inl (FileNotFoundError f), tr1) \<Rightarrow> recipient_loop h slot cmds last_error tr1
      | (Inl (CalledProcessError rc out err), tr1) \<Rightarrow>
          (case is_wsl2 h tr1 of (wsl, tr2) \<Rightarrow>
             if wsl then recipient_loop h slot cmds (Some err) tr2
             else (Inl (Inl (YubiKeyError
                     (''Failed to get recipient with '' @ cmd @ '': '' @ err))), tr2))
      | (Inl e, tr1) \<Rightarrow> (Inl (Inl e), tr1))"

definition get_yubikey_recipient :: "host \<Rightarrow> manager \<Rightarrow> trace \<Rightarrow> (exn + string) \<times> trace" where
  "get_yubikey_recipient h m tr =
     (case is_wsl2 h tr of (wsl, tr1) \<Rightarrow>
        (case recipient_loop h (yubikey_slot m) (plugin_commands wsl) None tr1 of
           (Inl outcome, tr2) \<Rightarrow> (outcome, tr2)
         | (Inr None, tr2) \<Rightarrow> (Inl (YubiKeyError not_found_message), tr2)
         | (Inr (Some err), tr2) \<Rightarrow>
             (case is_wsl2 h tr2 of (wsl', tr3) \<Rightarrow>
                if wsl' then (Inl (YubiKeyError (''Failed to get recipient: '' @ err)), tr3)
                else (Inl (YubiKeyError not_found_message), tr3))))"

fun identity_loop ::
  "host \<Rightarrow> string \<Rightarrow> string list \<Rightarrow> string option \<Rightarrow> trace
     \<Rightarrow> ((exn + string) + string option) \<times> trace" where
  "identity_loop h slot [] last_error tr = (Inr last_error, tr)"
| "identity_loop h slot (cmd # cmds) last_error tr =
     (case subprocess_run h [cmd, ''--identity'', ''--slot'', slot] [] True tr of
        (Inr (rc, out, err), tr1) \<Rightarrow> (Inl (Inr (strip out)), tr1)
      | (Inl (FileNotFoundError f), tr1) \<Rightarrow> identity_loop h slot cmds last_error tr1
      | (Inl (CalledProcessError rc out err), tr1) \<Rightarrow>
          (case is_wsl2 h tr1 of (wsl, tr2) \<Rightarrow>
             if wsl then identity_loop h slot cmds (Some err) tr2
             else (Inl (Inl (YubiKeyError
                     (''Failed to get identity with '' @ cmd @ '': '' @ err))), tr2))
      | (Inl e, tr1) \<Rightarrow> (Inl (Inl e), tr1))"

definition get_yubikey_identity :: "host \<Rightarrow> manager \<Rightarrow> trace \<Rightarrow> (exn + string) \<times> trace" where
  "get_yubikey_identity h m tr =
     (case is_wsl2 h tr of (wsl, tr1) \<Rightarrow>
        (case identity_loop h (yubikey_slot m) (plugin_commands wsl) None tr1 of
           (Inl outcome, tr2) \<Rightarrow> (outcome, tr2)
         | (Inr None, tr2) \<Rightarrow> (Inl (YubiKeyError not_found_message), tr2)
         | (Inr (Some err), tr2) \<Rightarrow>
             (case is_wsl2 h tr2 of (wsl', tr3) \<Rightarrow>
                if wsl' then (Inl (YubiKeyError (''Failed to get identity: '' @ err)), tr3)
                else (Inl (YubiKeyError not_found_message), tr3))))"

text \<open>The plugin executables among the commands of a trace, in the order they were started.\<close>

definition plugin_attempts :: "trace \<Rightarrow> string list" where
  "plugin_attempts tr =
     map hd (filter (\<lambda>argv. argv \<noteq> [] \<and>
        (hd argv = ''age-plugin-yubikey'' \<or> hd argv = ''age-plugin-yubikey.exe'')) tr)"

section \<open>nakimi/core/yubikey.py: unwrapping the age key\<close>

text \<open>
  Files are a map from paths to a content and a permission mode. \<^verbatim>\<open>os.unlink\<close> raises
  \<^verbatim>\<open>FileNotFoundError\<close> (an \<^verbatim>\<open>OSError\<close>) on a missing file, raises \<^verbatim>\<open>OSError\<close> and
  leaves the file where the system refuses the unlink, and removes the file otherwise.
\<close>

type_synonym fs = "string \<rightharpoonup> (string \<times> nat)"

definition mode_0o600 :: nat where
  "mode_0o600 = 6 * 64"

definition os_unlink :: "host \<Rightarrow> string \<Rightarrow> fs \<Rightarrow> (exn + unit) \<times> fs" where
  "os_unlink h p files =
     (case files p of
        None \<Rightarrow> (Inl (FileNotFoundError p), files)
      | Some f \<Rightarrow>
          if unlink_denied h p then (Inl (OSError ''[Errno 13] Permission denied''), files)
          else (Inr (), files(p := None)))"

text \<open>
  The \<^verbatim>\<open>try ... except CalledProcessError ... finally\<close> block of \<^verbatim>\<open>decrypt_age_key\<close>,
  entered once the identity file exists. The body's outcome is computed first; the
  \<^verbatim>\<open>finally\<close> clause then unlinks the identity file whatever that outcome is, and swallows
  the \<^verbatim>\<open>OSError\<close> of the unlink. Decoding the tool's output can itself raise
  (\<^verbatim>\<open>UnicodeDecodeError\<close>), in the body and in the handler; a missing \<^verbatim>\<open>age\<close> executable
  raises \<^verbatim>\<open>FileNotFoundError\<close>, which no handler catches.
\<close>

definition decrypt_with_identity_file ::
  "host \<Rightarrow> string \<Rightarrow> string \<Rightarrow> fs \<Rightarrow> trace \<Rightarrow> (exn + string) \<times> fs \<times> trace" where
  "decrypt_with_identity_file h identity_file encrypted_key files tr =
     (case (case subprocess_run h [''age'', ''-d'', ''-i'', identity_file] encrypted_key True tr of
              (Inr (rc, out, err), tr1) \<Rightarrow>
                (case decode_utf8 h out of
                   Some text \<Rightarrow> (Inr text, tr1)
                 | None \<Rightarrow> (Inl UnicodeDecodeError, tr1))
            | (Inl (CalledProcessError rc out err), tr1) \<Rightarrow>
                (case decode_utf8 h err of
                   Some text \<Rightarrow> (Inl (YubiKeyError (''Age decryption failed: '' @ text)), tr1)
                 | None \<Rightarrow> (Inl UnicodeDecodeError, tr1))
            | (Inl e, tr1) \<Rightarrow> (Inl e, tr1))
      of (outcome, tr1) \<Rightarrow>
        (case os_unlink h identity_file files of
           (Inr u, files') \<Rightarrow> (outcome, files', tr1)
         | (Inl os_error, files') \<Rightarrow> (outcome, files', tr1)))"

text \<open>
  \<^verbatim>\<open>decrypt_age_key\<close>. \<^verbatim>\<open>tempfile.NamedTemporaryFile(mode="w", suffix=".age",
  delete=False)\<close> creates a file under a name of the system's choice (\<open>temp_name\<close>), with
  mode 0o600; the identity is written to it and the file closed in a \<^verbatim>\<open>with\<close> block that
  comes before the \<^verbatim>\<open>try\<close>. An \<^verbatim>\<open>OSError\<close> of the write or of the close therefore leaves
  \<^verbatim>\<open>decrypt_age_key\<close> at once, outside the \<^verbatim>\<open>try ... finally\<close>, with the file still there
  (\<^verbatim>\<open>delete=False\<close>).
\<close>

definition plugin_not_installed_message :: string where
  "plugin_not_installed_message =
     ''age-plugin-yubikey not installed. Install it from https://github.com/str4d/age-plugin-yubikey''"

definition decrypt_age_key ::
  "host \<Rightarrow> manager \<Rightarrow> string \<Rightarrow> fs \<Rightarrow> trace \<Rightarrow> (exn + string) \<times> fs \<times> trace" where
  "decrypt_age_key h m encrypted_key files tr =
     (case check_age_plugin_installed h tr of (installed, tr1) \<Rightarrow>
        if \<not> installed then (Inl (YubiKeyError plugin_not_installed_message), files, tr1)
        else
          (case get_yubikey_identity h m tr1 of
             (Inl e, tr2) \<Rightarrow> (Inl e, files, tr2)
           | (Inr identity, tr2) \<Rightarrow>
               (case temp_write h identity of
                  WriteFailed left error \<Rightarrow>
                    (Inl (OSError error), files(temp_name h \<mapsto> (left, mode_0o600)), tr2)
                | Written \<Rightarrow>
                    decrypt_with_identity_file h (temp_name h) encrypted_key
                      (files(temp_name h \<mapsto> (identity, mode_0o600))) tr2)))"

section \<open>kimi\_vault/crypto.py: key generation\<close>









section \<open>kimi\_vault/client.py: the token guard\<close>

text \<open>
  The exceptions of the client: its own \<^verbatim>\<open>GmailAuthError\<close>, the API library's
  \<^verbatim>\<open>HttpError\<close> with the status of its response, \<^verbatim>\<open>AttributeError\<close>, and any other
  exception, each with the text \<^verbatim>\<open>str(e)\<close> gives.
\<close>

datatype gmail_exn =
    GmailAuthError string
  | HttpError nat string
  | AttributeError string
  | OtherException string

fun str_exn :: "gmail_exn \<Rightarrow> string" where
  "str_exn (GmailAuthError msg) = msg"
| "str_exn (HttpError status msg) = msg"
| "str_exn (AttributeError msg) = msg"
| "str_exn (OtherException msg) = msg"

fun str_nat :: "nat \<Rightarrow> string" where
  "str_nat n =
     (if n < 10 then [char_of (48 + n)] else str_nat (n div 10) @ [char_of (48 + n mod 10)])"

text \<open>
  The credentials object of the authentication library, as far as the client reads it:
  the access token, the expiry (seconds, \<^verbatim>\<open>None\<close> when absent) and the \<^verbatim>\<open>valid\<close>
  property. The client holds the credentials and the sticky \<^verbatim>\<open>_auth_error\<close>; the two
  counters record how many times \<^verbatim>\<open>creds.refresh(Request())\<close> and the wrapped operation
  have been called, and \<open>stderr_lines\<close> what has been printed to standard error.
\<close>

record credentials =
  token :: "string option"
  expiry :: "rat option"
  valid :: bool

record gmail_client =
  creds :: "credentials option"
  auth_error :: "string option"
  refresh_calls :: nat
  api_calls :: nat
  stderr_lines :: "string list"

text \<open>
  The token endpoint answers the \<open>n\<close>-th refresh call for the given credentials with the
  refreshed credentials, or with the text of the exception the library raises. The wrapped
  operation answers its \<open>n\<close>-th invocation, in the state the client is in, with a value or
  an exception.
\<close>

type_synonym token_endpoint = "nat \<Rightarrow> credentials \<Rightarrow> string + credentials"

type_synonym 'a api_call = "nat \<Rightarrow> gmail_client \<Rightarrow> gmail_exn + 'a"

definition revoked_message :: string where
  "revoked_message = ''Refresh token expired or revoked. Need to re-authorize with Gmail.''"

definition refresh_token ::
  "token_endpoint \<Rightarrow> gmail_client \<Rightarrow> (gmail_exn + unit) \<times> gmail_client" where
  "refresh_token endpoint g =
     (case creds g of
        None \<Rightarrow> (Inl (GmailAuthError ''No credentials available to refresh''), g)
      | Some c \<Rightarrow>
          (case endpoint (refresh_calls g) c of
             Inr c' \<Rightarrow>
               (Inr (), g\<lparr>creds := Some c', auth_error := None,
                           refresh_calls := refresh_calls g + 1\<rparr>)
           | Inl error_str \<Rightarrow>
               if py_in ''invalid_grant'' error_str
               then (Inl (GmailAuthError revoked_message),
                     g\<lparr>refresh_calls := refresh_calls g + 1\<rparr>)
               else (Inl (OtherException error_str),
                     g\<lparr>refresh_calls := refresh_calls g + 1\<rparr>)))"

definition ensure_valid_token ::
  "token_endpoint \<Rightarrow> rat \<Rightarrow> gmail_client \<Rightarrow> (gmail_exn + unit) \<times> gmail_client" where
  "ensure_valid_token endpoint utcnow g =
     (case creds g of
        None \<Rightarrow>
          (case auth_error g of
             None \<Rightarrow> (Inr (), g)
           | Some reason \<Rightarrow>
               if reason \<noteq> [] then (Inl (GmailAuthError reason), g) else (Inr (), g))
      | Some c \<Rightarrow>
          (let expires_in = (case expiry c of Some t \<Rightarrow> t - utcnow | None \<Rightarrow> 0) in
           if \<not> valid c \<or> expires_in < 300 then
             (case refresh_token endpoint g of
                (Inr u, g1) \<Rightarrow> (Inr (), g1)
              | (Inl e, g1) \<Rightarrow>
                  (let error_msg = ''Token refresh failed: '' @ str_exn e in
                   (Inl (GmailAuthError error_msg), g1\<lparr>auth_error := Some error_msg\<rparr>)))
           else (Inr (), g)))"

text \<open>\<^verbatim>\<open>_handle_api_error\<close> always returns \<^verbatim>\<open>None\<close>; the model returns the state it leaves.\<close>

definition handle_api_error :: "gmail_exn \<Rightarrow> gmail_client \<Rightarrow> gmail_client" where
  "handle_api_error e g =
     (case (case e of
              HttpError status msg \<Rightarrow>
                if status \<noteq> 0 then
                  (if status = 401 then
                     (''Authentication expired. Token refresh failed.'',
                      g\<lparr>auth_error := Some ''Authentication expired. Token refresh failed.''\<rparr>)
                   else if status = 403 then (''Permission denied. Check Gmail API scopes.'', g)
                   else if status = 429 then
                     (''Rate limit exceeded. Please wait and try again.'', g)
                   else (''HTTP '' @ str_nat status @ '': '' @ msg, g))
                else (msg, g)
            | _ \<Rightarrow> (str_exn e, g))
      of (error_details, g') \<Rightarrow>
        g'\<lparr>stderr_lines := stderr_lines g' @
              [[CHR 0xE2, CHR 0x9D, CHR 0x8C] @ '' Gmail API Error: '' @ error_details]\<rparr>)"

definition invoke :: "'a api_call \<Rightarrow> gmail_client \<Rightarrow> (gmail_exn + 'a) \<times> gmail_client" where
  "invoke api_call g = (api_call (api_calls g) g, g\<lparr>api_calls := api_calls g + 1\<rparr>)"

text \<open>
  \<^verbatim>\<open>_execute_with_retry\<close>. The result is \<open>Inr (Some v)\<close> for a returned value, \<open>Inr None\<close>
  for a returned \<^verbatim>\<open>None\<close>, and \<open>Inl e\<close> for an exception that leaves the function. Inside
  the handler of the first \<^verbatim>\<open>HttpError\<close> the inner \<^verbatim>\<open>try\<close> has one handler, for
  \<^verbatim>\<open>GmailAuthError\<close>; an exception of another class raised there, by the refresh or by the
  second call, is caught by nothing: the outer \<^verbatim>\<open>except Exception\<close> belongs to the same
  \<^verbatim>\<open>try\<close> statement as the running handler and does not apply to it.
\<close>

definition execute_with_retry ::
  "token_endpoint \<Rightarrow> 'a api_call \<Rightarrow> gmail_client \<Rightarrow> (gmail_exn + 'a option) \<times> gmail_client" where
  "execute_with_retry endpoint api_call g =
     (case invoke api_call g of
        (Inr v, g1) \<Rightarrow> (Inr (Some v), g1)
      | (Inl (HttpError status msg), g1) \<Rightarrow>
          if status = 401 then
            (case refresh_token endpoint g1 of
               (Inl (GmailAuthError reason), g2) \<Rightarrow> (Inr None, g2)
             | (Inl e, g2) \<Rightarrow> (Inl e, g2)
             | (Inr u, g2) \<Rightarrow>
                 (case invoke api_call g2 of
                    (Inr v, g3) \<Rightarrow> (Inr (Some v), g3)
                  | (Inl (GmailAuthError reason), g3) \<Rightarrow> (Inr None, g3)
                  | (Inl e, g3) \<Rightarrow> (Inl e, g3)))
          else (Inr None, handle_api_error (HttpError status msg) g1)
      | (Inl e, g1) \<Rightarrow> (Inr None, handle_api_error e g1))"

text \<open>
  \<^verbatim>\<open>_resolve_secrets_file\<close>. The source reads the variables through \<^verbatim>\<open>sys.environ\<close>.
  The module \<^verbatim>\<open>sys\<close> has no attribute \<^verbatim>\<open>environ\<close> (the mapping of the process environment
  is \<^verbatim>\<open>os.environ\<close>), so evaluating \<^verbatim>\<open>sys.environ\<close> raises \<^verbatim>\<open>AttributeError\<close> whatever
  the process environment holds: \<open>sys_environ\<close>. \<^verbatim>\<open>a or b\<close> is \<open>a\<close> when \<open>a\<close> is set and
  non-empty, else \<open>b\<close>.
\<close>

definition py_or :: "string option \<Rightarrow> string option \<Rightarrow> string option" where
  "py_or a b = (if truthy a then a else b)"

definition no_secrets_message :: string where
  "no_secrets_message =
     ''No secrets file provided. Either:'' @ [CHR 0x0A]
     @ ''1. Pass secrets_file parameter to GmailClient()'' @ [CHR 0x0A]
     @ ''2. Set KIMI_VAULT_SECRETS environment variable'' @ [CHR 0x0A]
     @ ''3. Run within kimi-vault-session''"

definition no_environ_message :: string where
  "no_environ_message =
     ''module '' @ [CHR 0x27] @ ''sys'' @ [CHR 0x27] @ '' has no attribute ''
     @ [CHR 0x27] @ ''environ'' @ [CHR 0x27]"

definition sys_environ :: "(string \<rightharpoonup> string) \<Rightarrow> gmail_exn + (string \<rightharpoonup> string)" where
  "sys_environ process_env = Inl (AttributeError no_environ_message)"

definition resolve_from_environment ::
  "(string \<rightharpoonup> string) \<Rightarrow> fs \<Rightarrow> gmail_exn + string" where
  "resolve_from_environment process_env files =
     (case sys_environ process_env of
        Inl e \<Rightarrow> Inl e
      | Inr env \<Rightarrow>
          (case py_or (env ''KIMI_VAULT_SECRETS'') (env ''KIMI_BOT_SECRETS'') of
             None \<Rightarrow> Inl (GmailAuthError no_secrets_message)
           | Some env_path \<Rightarrow>
               if env_path \<noteq> [] \<and> files env_path \<noteq> None then Inr env_path
               else Inl (GmailAuthError no_secrets_message)))"

definition resolve_secrets_file ::
  "(string \<rightharpoonup> string) \<Rightarrow> fs \<Rightarrow> string option \<Rightarrow> gmail_exn + string" where
  "resolve_secrets_file process_env files secrets_file =
     (case secrets_file of
        None \<Rightarrow> resolve_from_environment process_env files
      | Some path \<Rightarrow>
          if path \<noteq> [] then
            (if files path \<noteq> None then Inr path
             else Inl (GmailAuthError (''Secrets file not found: '' @ path)))
          else resolve_from_environment process_env files)"


text \<open>
  The candidates a lookup starts, by design: the build matching the environment first;
  the other build when the first is not on the search path, and, inside WSL2 only, also
  when the first exits non-zero.
\<close>

definition attempts_by_design :: "bool \<Rightarrow> proc_result \<Rightarrow> string list" where
  "attempts_by_design wsl first_result =
     (case first_result of
        NotFound \<Rightarrow> plugin_commands wsl
      | Exited rc out err \<Rightarrow>
          if rc \<noteq> 0 \<and> wsl then plugin_commands wsl else [hd (plugin_commands wsl)])"

definition is_plugin :: "string \<Rightarrow> bool" where
  "is_plugin cmd = (cmd = ''age-plugin-yubikey'' \<or> cmd = ''age-plugin-yubikey.exe'')"


text \<open>
  When \<^verbatim>\<open>_ensure_valid_token\<close> refreshes held credentials, and the exception a failed
  \<^verbatim>\<open>_refresh_token\<close> leaves with, given the text of the library's exception.
\<close>

definition refresh_due :: "credentials \<Rightarrow> rat \<Rightarrow> bool" where
  "refresh_due c utcnow =
     (\<not> valid c \<or> (case expiry c of Some t \<Rightarrow> t - utcnow | None \<Rightarrow> 0) < 300)"

definition refresh_failure :: "string \<Rightarrow> gmail_exn" where
  "refresh_failure error_str =
     (if py_in ''invalid_grant'' error_str then GmailAuthError revoked_message
      else OtherException error_str)"

section \<open>Example hosts, clients and operations\<close>

text \<open>
  Concrete inputs on which the theorems below are evaluated. \<open>example_host\<close> answers
  the command lines of its table and reports every other executable as not found.
\<close>

definition example_host :: "read_result \<Rightarrow> (string list \<times> proc_result) list \<Rightarrow> host" where
  "example_host version table =
     \<lparr>proc_version = version,
      environ = Map.empty,
      run = (\<lambda>argv inp. case map_of table argv of Some r \<Rightarrow> r | None \<Rightarrow> NotFound),
      decode_utf8 = Some,
      temp_name = ''/tmp/tmpk3v9xq2a.age'',
      temp_write = (\<lambda>text. Written),
      unlink_denied = (\<lambda>path. False),
      keygen_writes = (\<lambda>path. Some (''AGE-SECRET-KEY-1EXAMPLE'', 420)),
      new_file_mode = 420\<rparr>"

definition wsl_version :: read_result where
  "wsl_version = Content ''Linux version 5.15.90.1-microsoft-standard-WSL2''"

definition native_version :: read_result where
  "native_version = Content ''Linux version 6.1.0-13-amd64 (Debian 6.1.55-1)''"

definition pcsc_warning :: string where
  "pcsc_warning =
     ''WARNING: PC/SC not available. Smart card (CCID) protocols will not function.''"

definition ykman_without_pcsc :: "(string list \<times> proc_result) list" where
  "ykman_without_pcsc =
     [([''ykman'', ''--version''], Exited 0 ''YubiKey Manager (ykman) version: 5.2.1'' []),
      ([''ykman'', ''info''], Exited 1 [] pcsc_warning)]"

definition wsl_host_without_plugin :: host where
  "wsl_host_without_plugin = example_host wsl_version ykman_without_pcsc"

definition wsl_host_with_plugin :: host where
  "wsl_host_with_plugin =
     example_host wsl_version
       (([''age-plugin-yubikey.exe'', ''--version''], Exited 0 ''age-plugin-yubikey 0.5.0'' [])
        # ykman_without_pcsc)"

definition wsl_host_exe_fails :: host where
  "wsl_host_exe_fails =
     example_host wsl_version
       [([''age-plugin-yubikey.exe'', ''--identity'', ''--slot'', ''1''],
           Exited 1 [] ''Error: no YubiKey found''),
        ([''age-plugin-yubikey'', ''--identity'', ''--slot'', ''1''],
           Exited 0 ''AGE-PLUGIN-YUBIKEY-1EXAMPLE'' [])]"

definition native_host_plugin_fails :: host where
  "native_host_plugin_fails =
     example_host native_version
       [([''uname'', ''-r''], Exited 0 ''6.1.0-13-amd64'' []),
        ([''age-plugin-yubikey'', ''--identity'', ''--slot'', ''1''],
           Exited 1 [] ''Error: no YubiKey found''),
        ([''age-plugin-yubikey'', ''--list'', ''--slot'', ''1''],
           Exited 1 [] ''Error: no YubiKey found''),
        ([''age-plugin-yubikey.exe'', ''--identity'', ''--slot'', ''1''],
           Exited 0 ''AGE-PLUGIN-YUBIKEY-1EXAMPLE'' [])]"

definition decrypt_fails_host :: host where
  "decrypt_fails_host =
     example_host native_version
       [([''age-plugin-yubikey'', ''--version''], Exited 0 ''age-plugin-yubikey 0.5.0'' []),
        ([''age-plugin-yubikey'', ''--identity'', ''--slot'', ''1''],
           Exited 0 ''AGE-PLUGIN-YUBIKEY-1EXAMPLE'' []),
        ([''age'', ''-d'', ''-i'', ''/tmp/tmpk3v9xq2a.age''],
           Exited 1 [] ''age: error: no identity matched any of the recipients'')]"

definition disk_full_host :: host where
  "disk_full_host =
     decrypt_fails_host
       \<lparr>temp_write := (\<lambda>text. WriteFailed [] ''[Errno 28] No space left on device'')\<rparr>"

definition other_files :: fs where
  "other_files = [''/home/u/.nakimi/key.txt.age'' \<mapsto> (''age-encryption.org/v1'', 384)]"



definition example_credentials :: credentials where
  "example_credentials = \<lparr>token = Some ''ya29.old'', expiry = Some 3600, valid = True\<rparr>"

definition example_client :: "credentials \<Rightarrow> gmail_client" where
  "example_client c =
     \<lparr>creds = Some c, auth_error = None, refresh_calls = 0, api_calls = 0, stderr_lines = []\<rparr>"

definition endpoint_ok :: token_endpoint where
  "endpoint_ok n c = Inr (c\<lparr>token := Some ''ya29.new'', expiry := Some 7200, valid := True\<rparr>)"

definition endpoint_down :: token_endpoint where
  "endpoint_down n c = Inl ''Connection reset by peer''"

definition endpoint_revoked :: token_endpoint where
  "endpoint_revoked n c = Inl ''invalid_grant: Token has been expired or revoked.''"

definition always_unauthorized :: "string api_call" where
  "always_unauthorized n g = Inl (HttpError 401 ''Unauthorized'')"

definition secrets_environment :: "string \<rightharpoonup> string" where
  "secrets_environment = [''KIMI_VAULT_SECRETS'' \<mapsto> ''/run/user/1000/secrets.json'']"

definition secrets_files :: fs where
  "secrets_files = [''/run/user/1000/secrets.json'' \<mapsto> (''{}'', 384)]"

section \<open>Environment detection: properties\<close>

lemma is_wsl2_eq: "is_wsl2 h tr = (wsl2_env h, tr @ is_wsl2_cmds h)"
  by (simp add: is_wsl2_def wsl2_env_def is_wsl2_cmds_def kernel_version_signal_def
      kernel_release_signal_def marker_variable_signal_def truthy_def
      subprocess_run_def
      split: read_result.splits proc_result.splits option.splits)

text \<open>
  C8. \<^verbatim>\<open>is_wsl2\<close> returns true exactly when at least one of its three host signals
  matches (the kernel version string of \<^verbatim>\<open>/proc/version\<close>, the kernel release printed by
  \<^verbatim>\<open>uname -r\<close>, a non-empty \<^verbatim>\<open>WSL_DISTRO_NAME\<close>), so it returns false only when all
  three are absent or inconclusive; the only process it ever starts is \<^verbatim>\<open>uname -r\<close>,
  and it starts none when \<^verbatim>\<open>/proc/version\<close> already matched: no network and no hardware
  device is touched.
\<close>

theorem is_wsl2_any_signal:
  "fst (is_wsl2 h tr) =
     (kernel_version_signal h \<or> kernel_release_signal h \<or> marker_variable_signal h)
   \<and> snd (is_wsl2 h tr) =
     tr @ (if kernel_version_signal h then [] else [[''uname'', ''-r'']])"
  by (simp add: is_wsl2_def kernel_version_signal_def
      kernel_release_signal_def marker_variable_signal_def truthy_def
      subprocess_run_def
      split: read_result.splits proc_result.splits option.splits)

section \<open>Unfolding rules for evaluation\<close>

lemmas example_defs = example_host_def wsl_version_def native_version_def

lemmas eval_defs = lower_def lower_char_def truthy_def subprocess_run_def is_wsl2_def
  new_manager_def check_ykman_installed_def check_yubikey_present_wsl2_def
  check_age_plugin_installed_def pcsc_unavailable_def check_yubikey_present_def
  plugin_commands_def get_yubikey_identity_def get_yubikey_recipient_def plugin_attempts_def
  strip_def is_space_def

section \<open>Device presence: properties\<close>






lemma check_yubikey_present_stores:
  "check_yubikey_present h m tr = (Inr b, m', tr') \<Longrightarrow> yubikey_present m' = Some b"
  by (auto simp: check_yubikey_present_def check_ykman_installed_def
      split: option.splits prod.splits sum.splits if_splits exn.splits)

text \<open>
  C6, as the code has it. \<^verbatim>\<open>_check_yubikey_present\<close> memoizes on every path that
  returns, the failed WSL2 ladder included: once a call has returned an answer, every later
  call on that manager returns the same answer, whatever the host has become, leaves the
  manager as it is and starts no process.
\<close>

theorem device_present_memoized:
  assumes "fst (check_yubikey_present h m tr) = Inr b"
  shows "check_yubikey_present h' (fst (snd (check_yubikey_present h m tr))) tr' =
           (Inr b, fst (snd (check_yubikey_present h m tr)), tr')"
proof -
  obtain m1 tr1 where r: "check_yubikey_present h m tr = (Inr b, m1, tr1)"
    using assms by (cases "check_yubikey_present h m tr") auto
  then have "yubikey_present m1 = Some b" by (rule check_yubikey_present_stores)
  then show ?thesis using r by (simp add: check_yubikey_present_def)
qed

theorem device_present_memoized_witness:
  "fst (check_yubikey_present wsl_host_without_plugin (new_manager ''1'' True) []) = Inr False
   \<and> check_yubikey_present wsl_host_with_plugin
         (fst (snd (check_yubikey_present wsl_host_without_plugin (new_manager ''1'' True) []))) []
       = (Inr False,
          fst (snd (check_yubikey_present wsl_host_without_plugin (new_manager ''1'' True) [])), [])"
proof -
  have a: "fst (check_yubikey_present wsl_host_without_plugin (new_manager ''1'' True) [])
             = Inr False"
    by (simp add: eval_defs example_defs pcsc_warning_def ykman_without_pcsc_def
        wsl_host_without_plugin_def wsl_host_with_plugin_def)
  show ?thesis using a device_present_memoized [OF a, of wsl_host_with_plugin "[]"] by simp
qed

text \<open>
  The claim as stated fails. A first call in WSL2, with \<^verbatim>\<open>ykman info\<close> failing for lack
  of PC/SC and no plugin build reachable, returns false. A second call on the same
  manager, on a host where the Windows plugin build now answers its version query, still
  returns false and starts no process, while a manager without a memoized answer returns
  true on that host.
\<close>

theorem device_present_not_rerun_counterexample:
  "fst (check_yubikey_present wsl_host_without_plugin (new_manager ''1'' True) []) = Inr False
   \<and> fst (check_yubikey_present wsl_host_with_plugin
           (fst (snd (check_yubikey_present wsl_host_without_plugin (new_manager ''1'' True) []))) [])
       = Inr False
   \<and> snd (snd (check_yubikey_present wsl_host_with_plugin
           (fst (snd (check_yubikey_present wsl_host_without_plugin (new_manager ''1'' True) []))) []))
       = []
   \<and> fst (check_yubikey_present wsl_host_with_plugin (new_manager ''1'' True) []) = Inr True"
  by (simp add: eval_defs example_defs pcsc_warning_def ykman_without_pcsc_def
        wsl_host_without_plugin_def wsl_host_with_plugin_def)

section \<open>The two plugin lookups: properties\<close>

lemma plugin_attempts_append:
  "plugin_attempts (a @ b) = plugin_attempts a @ plugin_attempts b"
  by (simp add: plugin_attempts_def)

lemma plugin_attempts_wsl2_cmds: "plugin_attempts (is_wsl2_cmds h) = []"
  by (simp add: plugin_attempts_def is_wsl2_cmds_def)

lemma plugin_attempts_single:
  "is_plugin cmd \<Longrightarrow> plugin_attempts ((cmd # args) # tr) = cmd # plugin_attempts tr"
  by (auto simp add: plugin_attempts_def is_plugin_def)

lemma identity_loop_not_found:
  "run h [cmd, ''--identity'', ''--slot'', slot] [] = NotFound \<Longrightarrow>
   identity_loop h slot (cmd # cmds) last_error tr =
     identity_loop h slot cmds last_error (tr @ [[cmd, ''--identity'', ''--slot'', slot]])"
  by (simp add: subprocess_run_def)

lemma identity_loop_failed_wsl:
  "run h [cmd, ''--identity'', ''--slot'', slot] [] = Exited rc out err \<Longrightarrow> rc \<noteq> 0 \<Longrightarrow>
   wsl2_env h \<Longrightarrow>
   identity_loop h slot (cmd # cmds) last_error tr =
     identity_loop h slot cmds (Some err)
       (tr @ [[cmd, ''--identity'', ''--slot'', slot]] @ is_wsl2_cmds h)"
  by (simp add: subprocess_run_def is_wsl2_eq)

lemma plugin_attempts_Nil: "plugin_attempts [] = []"
  by (simp add: plugin_attempts_def)

lemmas attempts_simps = plugin_attempts_append plugin_attempts_wsl2_cmds plugin_attempts_single
  plugin_attempts_Nil

lemma identity_loop_last:
  assumes "is_plugin cmd"
  shows "plugin_attempts (snd (identity_loop h slot [cmd] last_error tr)) =
           plugin_attempts tr @ [cmd]"
proof (cases "run h [cmd, ''--identity'', ''--slot'', slot] []")
  case NotFound
  then show ?thesis using assms by (simp add: subprocess_run_def attempts_simps)
next
  case (Exited rc out err)
  then show ?thesis using assms
    by (cases "rc = 0") (simp_all add: subprocess_run_def is_wsl2_eq attempts_simps)
qed

lemma identity_loop_first:
  assumes "is_plugin c1" "is_plugin c2"
  shows "plugin_attempts (snd (identity_loop h slot [c1, c2] None tr)) =
     plugin_attempts tr @
       (case run h [c1, ''--identity'', ''--slot'', slot] [] of
          NotFound \<Rightarrow> [c1, c2]
        | Exited rc out err \<Rightarrow> if rc \<noteq> 0 \<and> wsl2_env h then [c1, c2] else [c1])"
proof (cases "run h [c1, ''--identity'', ''--slot'', slot] []")
  case NotFound
  then have "identity_loop h slot [c1, c2] None tr =
      identity_loop h slot [c2] None (tr @ [[c1, ''--identity'', ''--slot'', slot]])"
    by (rule identity_loop_not_found)
  then show ?thesis using NotFound assms
    by (simp only: identity_loop_last attempts_simps) simp
next
  case (Exited rc out err)
  show ?thesis
  proof (cases "rc \<noteq> 0 \<and> wsl2_env h")
    case True
    then have "identity_loop h slot [c1, c2] None tr =
      identity_loop h slot [c2] (Some err)
        (tr @ [[c1, ''--identity'', ''--slot'', slot]] @ is_wsl2_cmds h)"
      using Exited by (intro identity_loop_failed_wsl) auto
    then show ?thesis using Exited True assms
      by (simp only: identity_loop_last attempts_simps) simp
  next
    case False
    then show ?thesis using Exited assms
      by (cases "rc = 0") (simp_all add: subprocess_run_def is_wsl2_eq attempts_simps)
  qed
qed

lemma get_yubikey_identity_attempts:
  "plugin_attempts (snd (get_yubikey_identity h m tr)) =
     plugin_attempts (snd (identity_loop h (yubikey_slot m) (plugin_commands (wsl2_env h)) None
        (tr @ is_wsl2_cmds h)))"
proof -
  obtain r tr2 where l: "identity_loop h (yubikey_slot m) (plugin_commands (wsl2_env h)) None
        (tr @ is_wsl2_cmds h) = (r, tr2)"
    by (cases "identity_loop h (yubikey_slot m) (plugin_commands (wsl2_env h)) None
        (tr @ is_wsl2_cmds h)") auto
  show ?thesis
    unfolding get_yubikey_identity_def is_wsl2_eq using l
    by (auto simp: attempts_simps split: sum.splits option.splits)
qed

lemma plugin_commands_cases:
  "plugin_commands wsl = [hd (plugin_commands wsl), hd (tl (plugin_commands wsl))]"
  "is_plugin (hd (plugin_commands wsl))" "is_plugin (hd (tl (plugin_commands wsl)))"
  by (simp_all add: plugin_commands_def is_plugin_def)

lemma identity_attempts:
  "plugin_attempts (snd (get_yubikey_identity h m [])) =
     attempts_by_design (fst (is_wsl2 h []))
       (run h [hd (plugin_commands (fst (is_wsl2 h []))), ''--identity'', ''--slot'', yubikey_slot m] [])"
proof -
  let ?w = "wsl2_env h"
  let ?c1 = "hd (plugin_commands ?w)" and ?c2 = "hd (tl (plugin_commands ?w))"
  have "plugin_attempts (snd (get_yubikey_identity h m [])) =
      plugin_attempts (snd (identity_loop h (yubikey_slot m) [?c1, ?c2] None ([] @ is_wsl2_cmds h)))"
    using get_yubikey_identity_attempts [of h m "[]"] plugin_commands_cases(1) [of ?w] by simp
  also have "\<dots> = plugin_attempts ([] @ is_wsl2_cmds h) @
       (case run h [?c1, ''--identity'', ''--slot'', yubikey_slot m] [] of
          NotFound \<Rightarrow> [?c1, ?c2]
        | Exited rc out err \<Rightarrow> if rc \<noteq> 0 \<and> wsl2_env h then [?c1, ?c2] else [?c1])"
    by (rule identity_loop_first) (rule plugin_commands_cases)+
  finally show ?thesis
    by (cases "wsl2_env h")
      (simp_all add: attempts_simps attempts_by_design_def is_wsl2_eq plugin_commands_def
        split: proc_result.splits)
qed


lemma recipient_loop_not_found:
  "run h [cmd, ''--list'', ''--slot'', slot] [] = NotFound \<Longrightarrow>
   recipient_loop h slot (cmd # cmds) last_error tr =
     recipient_loop h slot cmds last_error (tr @ [[cmd, ''--list'', ''--slot'', slot]])"
  by (simp add: subprocess_run_def)

lemma recipient_loop_failed_wsl:
  "run h [cmd, ''--list'', ''--slot'', slot] [] = Exited rc out err \<Longrightarrow> rc \<noteq> 0 \<Longrightarrow>
   wsl2_env h \<Longrightarrow>
   recipient_loop h slot (cmd # cmds) last_error tr =
     recipient_loop h slot cmds (Some err)
       (tr @ [[cmd, ''--list'', ''--slot'', slot]] @ is_wsl2_cmds h)"
  by (simp add: subprocess_run_def is_wsl2_eq)

lemma recipient_loop_last:
  assumes "is_plugin cmd"
  shows "plugin_attempts (snd (recipient_loop h slot [cmd] last_error tr)) =
           plugin_attempts tr @ [cmd]"
proof (cases "run h [cmd, ''--list'', ''--slot'', slot] []")
  case NotFound
  then show ?thesis using assms by (simp add: subprocess_run_def attempts_simps)
next
  case (Exited rc out err)
  then show ?thesis using assms
    by (cases "rc = 0")
      (simp_all add: subprocess_run_def is_wsl2_eq attempts_simps split: option.splits)
qed

lemma recipient_loop_first:
  assumes "is_plugin c1" "is_plugin c2"
  shows "plugin_attempts (snd (recipient_loop h slot [c1, c2] None tr)) =
     plugin_attempts tr @
       (case run h [c1, ''--list'', ''--slot'', slot] [] of
          NotFound \<Rightarrow> [c1, c2]
        | Exited rc out err \<Rightarrow> if rc \<noteq> 0 \<and> wsl2_env h then [c1, c2] else [c1])"
proof (cases "run h [c1, ''--list'', ''--slot'', slot] []")
  case NotFound
  then have "recipient_loop h slot [c1, c2] None tr =
      recipient_loop h slot [c2] None (tr @ [[c1, ''--list'', ''--slot'', slot]])"
    by (rule recipient_loop_not_found)
  then show ?thesis using NotFound assms
    by (simp only: recipient_loop_last attempts_simps) simp
next
  case (Exited rc out err)
  show ?thesis
  proof (cases "rc \<noteq> 0 \<and> wsl2_env h")
    case True
    then have "recipient_loop h slot [c1, c2] None tr =
      recipient_loop h slot [c2] (Some err)
        (tr @ [[c1, ''--list'', ''--slot'', slot]] @ is_wsl2_cmds h)"
      using Exited by (intro recipient_loop_failed_wsl) auto
    then show ?thesis using Exited True assms
      by (simp only: recipient_loop_last attempts_simps) simp
  next
    case False
    then show ?thesis using Exited assms
      by (cases "rc = 0")
        (simp_all add: subprocess_run_def is_wsl2_eq attempts_simps split: option.splits)
  qed
qed

lemma get_yubikey_recipient_attempts:
  "plugin_attempts (snd (get_yubikey_recipient h m tr)) =
     plugin_attempts (snd (recipient_loop h (yubikey_slot m) (plugin_commands (wsl2_env h)) None
        (tr @ is_wsl2_cmds h)))"
proof -
  obtain r tr2 where l: "recipient_loop h (yubikey_slot m) (plugin_commands (wsl2_env h)) None
        (tr @ is_wsl2_cmds h) = (r, tr2)"
    by (cases "recipient_loop h (yubikey_slot m) (plugin_commands (wsl2_env h)) None
        (tr @ is_wsl2_cmds h)") auto
  show ?thesis
    unfolding get_yubikey_recipient_def is_wsl2_eq using l
    by (auto simp: attempts_simps split: sum.splits option.splits)
qed

lemma recipient_attempts:
  "plugin_attempts (snd (get_yubikey_recipient h m [])) =
     attempts_by_design (fst (is_wsl2 h []))
       (run h [hd (plugin_commands (fst (is_wsl2 h []))), ''--list'', ''--slot'', yubikey_slot m] [])"
proof -
  let ?w = "wsl2_env h"
  let ?c1 = "hd (plugin_commands ?w)" and ?c2 = "hd (tl (plugin_commands ?w))"
  have "plugin_attempts (snd (get_yubikey_recipient h m [])) =
      plugin_attempts (snd (recipient_loop h (yubikey_slot m) [?c1, ?c2] None ([] @ is_wsl2_cmds h)))"
    using get_yubikey_recipient_attempts [of h m "[]"] plugin_commands_cases(1) [of ?w] by simp
  also have "\<dots> = plugin_attempts ([] @ is_wsl2_cmds h) @
       (case run h [?c1, ''--list'', ''--slot'', yubikey_slot m] [] of
          NotFound \<Rightarrow> [?c1, ?c2]
        | Exited rc out err \<Rightarrow> if rc \<noteq> 0 \<and> wsl2_env h then [?c1, ?c2] else [?c1])"
    by (rule recipient_loop_first) (rule plugin_commands_cases)+
  finally show ?thesis
    by (cases "wsl2_env h")
      (simp_all add: attempts_simps attempts_by_design_def is_wsl2_eq plugin_commands_def
        split: proc_result.splits)
qed

lemma identity_native_raises:
  "\<not> fst (is_wsl2 h []) \<Longrightarrow> run h [''age-plugin-yubikey'', ''--identity'', ''--slot'', yubikey_slot m] [] = Exited rc out err
   \<Longrightarrow> rc \<noteq> 0 \<Longrightarrow> fst (get_yubikey_identity h m []) =
      Inl (YubiKeyError (''Failed to get identity with age-plugin-yubikey: '' @ err))"
  by (simp add: get_yubikey_identity_def is_wsl2_eq plugin_commands_def subprocess_run_def)

lemma recipient_native_raises:
  "\<not> fst (is_wsl2 h []) \<Longrightarrow> run h [''age-plugin-yubikey'', ''--list'', ''--slot'', yubikey_slot m] [] = Exited rc out err
   \<Longrightarrow> rc \<noteq> 0 \<Longrightarrow> fst (get_yubikey_recipient h m []) =
      Inl (YubiKeyError (''Failed to get recipient with age-plugin-yubikey: '' @ err))"
  by (simp add: get_yubikey_recipient_def is_wsl2_eq plugin_commands_def subprocess_run_def)

text \<open>
  C7, as the code has it. In the recipient lookup and in the identity lookup the build
  matching the detected environment is started first. Outside WSL2 the other build is
  started only when the first is not found on the search path, and a non-zero exit of the
  first raises \<^verbatim>\<open>YubiKeyError\<close> without a fallback. Inside WSL2 the other build is
  started when the first is not found and also when the first exits non-zero.
\<close>

theorem plugin_lookup_attempt_order:
  "plugin_attempts (snd (get_yubikey_recipient h m [])) =
     attempts_by_design (fst (is_wsl2 h []))
       (run h [hd (plugin_commands (fst (is_wsl2 h []))), ''--list'', ''--slot'', yubikey_slot m] [])
   \<and> plugin_attempts (snd (get_yubikey_identity h m [])) =
     attempts_by_design (fst (is_wsl2 h []))
       (run h [hd (plugin_commands (fst (is_wsl2 h []))), ''--identity'', ''--slot'', yubikey_slot m] [])
   \<and> (\<not> fst (is_wsl2 h []) \<and> rc \<noteq> 0 \<longrightarrow>
        (run h [''age-plugin-yubikey'', ''--list'', ''--slot'', yubikey_slot m] [] = Exited rc out err
           \<longrightarrow> fst (get_yubikey_recipient h m []) =
                 Inl (YubiKeyError (''Failed to get recipient with age-plugin-yubikey: '' @ err)))
        \<and> (run h [''age-plugin-yubikey'', ''--identity'', ''--slot'', yubikey_slot m] [] = Exited rc out err
           \<longrightarrow> fst (get_yubikey_identity h m []) =
                 Inl (YubiKeyError (''Failed to get identity with age-plugin-yubikey: '' @ err))))"
  using recipient_attempts identity_attempts identity_native_raises recipient_native_raises
  by blast

theorem plugin_lookup_attempt_order_witness:
  "plugin_attempts (snd (get_yubikey_identity native_host_plugin_fails (new_manager ''1'' True) []))
     = [''age-plugin-yubikey'']
   \<and> fst (get_yubikey_identity native_host_plugin_fails (new_manager ''1'' True) []) =
       Inl (YubiKeyError
         ''Failed to get identity with age-plugin-yubikey: Error: no YubiKey found'')
   \<and> plugin_attempts (snd (get_yubikey_recipient native_host_plugin_fails (new_manager ''1'' True) []))
     = [''age-plugin-yubikey'']
   \<and> plugin_attempts (snd (get_yubikey_identity wsl_host_exe_fails (new_manager ''1'' True) []))
     = [''age-plugin-yubikey.exe'', ''age-plugin-yubikey'']"
proof -
  have n: "\<not> fst (is_wsl2 native_host_plugin_fails [])"
    by (simp add: eval_defs example_defs wsl_host_exe_fails_def
        native_host_plugin_fails_def)
  have w: "fst (is_wsl2 wsl_host_exe_fails [])"
    by (simp add: eval_defs example_defs wsl_host_exe_fails_def
        native_host_plugin_fails_def)
  have r1: "run native_host_plugin_fails
      [''age-plugin-yubikey'', ''--identity'', ''--slot'', yubikey_slot (new_manager ''1'' True)] []
      = Exited 1 [] ''Error: no YubiKey found''"
    by (simp add: new_manager_def example_defs wsl_host_exe_fails_def
        native_host_plugin_fails_def)
  have r2: "run native_host_plugin_fails
      [''age-plugin-yubikey'', ''--list'', ''--slot'', yubikey_slot (new_manager ''1'' True)] []
      = Exited 1 [] ''Error: no YubiKey found''"
    by (simp add: new_manager_def example_defs wsl_host_exe_fails_def
        native_host_plugin_fails_def)
  have r3: "run wsl_host_exe_fails
      [''age-plugin-yubikey.exe'', ''--identity'', ''--slot'', yubikey_slot (new_manager ''1'' True)] []
      = Exited 1 [] ''Error: no YubiKey found''"
    by (simp add: new_manager_def example_defs wsl_host_exe_fails_def
        native_host_plugin_fails_def)
  show ?thesis
    using plugin_lookup_attempt_order [of native_host_plugin_fails "new_manager ''1'' True"
        1 "[]" "''Error: no YubiKey found''"]
      plugin_lookup_attempt_order [of wsl_host_exe_fails "new_manager ''1'' True" 1 "[]" "[]"]
      n w r1 r2 r3
    by (simp add: attempts_by_design_def plugin_commands_def)
qed

text \<open>
  The claim as stated fails inside WSL2: the Windows build is found, exits with status 1,
  and the identity lookup does not raise; it starts the native build and returns its
  output.
\<close>

theorem plugin_lookup_falls_back_counterexample:
  "fst (is_wsl2 wsl_host_exe_fails [])
   \<and> run wsl_host_exe_fails [''age-plugin-yubikey.exe'', ''--identity'', ''--slot'', ''1''] []
        = Exited 1 [] ''Error: no YubiKey found''
   \<and> get_yubikey_identity wsl_host_exe_fails (new_manager ''1'' True) [] =
       (Inr ''AGE-PLUGIN-YUBIKEY-1EXAMPLE'',
        [[''age-plugin-yubikey.exe'', ''--identity'', ''--slot'', ''1''],
         [''age-plugin-yubikey'', ''--identity'', ''--slot'', ''1'']])"
  by (simp add: eval_defs example_defs wsl_host_exe_fails_def
        native_host_plugin_fails_def)

section \<open>Unwrapping the age key: properties\<close>

lemma decrypt_with_identity_file_unlinks:
  assumes "\<not> unlink_denied h p"
  shows "fst (snd (decrypt_with_identity_file h p enc files tr)) = files(p := None)"
proof -
  have u: "snd (os_unlink h p files) = files(p := None)"
    using assms by (auto simp: os_unlink_def split: option.splits)
  show ?thesis
    unfolding decrypt_with_identity_file_def
    using u by (auto split: prod.splits sum.splits)
qed

text \<open>
  What the \<^verbatim>\<open>finally\<close> clause achieves: when the identity has been written and the system
  does not refuse the unlink, \<^verbatim>\<open>decrypt_age_key\<close>, given a temporary name not yet in use,
  leaves the files exactly as it found them, whatever the decrypt tool does (exit zero,
  exit non-zero, not be found) and whether or not decoding its output raises.
\<close>

lemma decrypt_age_key_restores_files:
  assumes f: "files (temp_name h) = None"
    and w: "temp_write h = (\<lambda>text. Written)"
    and u: "\<not> unlink_denied h (temp_name h)"
  shows "fst (snd (decrypt_age_key h m encrypted_key files tr)) = files"
proof -
  have "(files(temp_name h \<mapsto> x))(temp_name h := None) = files" for x
    using f by auto
  then show ?thesis
    using w u
    by (simp add: decrypt_age_key_def decrypt_with_identity_file_unlinks
        split: prod.splits sum.splits)
qed

lemma decrypt_age_key_tool_failure_example:
  "decrypt_age_key decrypt_fails_host (new_manager ''1'' True) ''ciphertext'' other_files [] =
       (Inl (YubiKeyError
          ''Age decryption failed: age: error: no identity matched any of the recipients''),
        other_files,
        [[''age-plugin-yubikey'', ''--version''],
         [''uname'', ''-r''],
         [''age-plugin-yubikey'', ''--identity'', ''--slot'', ''1''],
         [''age'', ''-d'', ''-i'', ''/tmp/tmpk3v9xq2a.age'']])"
proof -
  have f: "other_files (temp_name decrypt_fails_host) = None"
    "temp_write decrypt_fails_host = (\<lambda>text. Written)"
    "\<not> unlink_denied decrypt_fails_host (temp_name decrypt_fails_host)"
    by (simp_all add: other_files_def decrypt_fails_host_def example_defs)
  have r: "fst (decrypt_age_key decrypt_fails_host (new_manager ''1'' True) ''ciphertext'' other_files [])
     = Inl (YubiKeyError
          ''Age decryption failed: age: error: no identity matched any of the recipients'')"
    "snd (snd (decrypt_age_key decrypt_fails_host (new_manager ''1'' True) ''ciphertext'' other_files []))
     = [[''age-plugin-yubikey'', ''--version''],
         [''uname'', ''-r''],
         [''age-plugin-yubikey'', ''--identity'', ''--slot'', ''1''],
         [''age'', ''-d'', ''-i'', ''/tmp/tmpk3v9xq2a.age'']]"
    by (simp_all add: decrypt_age_key_def decrypt_with_identity_file_def os_unlink_def
        decrypt_fails_host_def eval_defs example_defs)
  show ?thesis
    using decrypt_age_key_restores_files
        [where h = decrypt_fails_host and files = other_files
           and m = "new_manager ''1'' True" and encrypted_key = "''ciphertext''" and tr = "[]"]
      f r
    by (metis prod.collapse)
qed

text \<open>
  C4, at an input where the code leaves the claim. The plugin is installed and returns the
  identity, the temporary file is created, and writing the identity to it fails with
  \<^verbatim>\<open>OSError\<close> (no space left on the device). \<^verbatim>\<open>decrypt_age_key\<close> raises that error
  without ever starting the decrypt tool, and the temporary identity file, not there
  before the call, is still there after it.
\<close>

theorem decrypt_age_key_write_failure_leaves_file:
  "other_files (temp_name disk_full_host) = None
   \<and> fst (decrypt_age_key disk_full_host (new_manager ''1'' True) ''ciphertext'' other_files [])
       = Inl (OSError ''[Errno 28] No space left on device'')
   \<and> fst (snd (decrypt_age_key disk_full_host (new_manager ''1'' True) ''ciphertext''
         other_files [])) (temp_name disk_full_host) = Some ([], mode_0o600)
   \<and> snd (snd (decrypt_age_key disk_full_host (new_manager ''1'' True) ''ciphertext''
         other_files []))
       = [[''age-plugin-yubikey'', ''--version''],
          [''uname'', ''-r''],
          [''age-plugin-yubikey'', ''--identity'', ''--slot'', ''1'']]"
  by (simp add: decrypt_age_key_def disk_full_host_def other_files_def
      decrypt_fails_host_def eval_defs example_defs)

section \<open>Key generation: properties\<close>




lemma pub_differs: "key @ ''.pub'' \<noteq> key"
  by simp






section \<open>The token guard: properties\<close>

lemmas client_defs = refresh_token_def ensure_valid_token_def invoke_def
  execute_with_retry_def handle_api_error_def revoked_message_def

text \<open>
  C1, at the inputs where the code leaves the claim. The operation answers 401 on every
  invocation. With a token endpoint that refreshes successfully, \<^verbatim>\<open>_execute_with_retry\<close>
  calls the operation twice and the endpoint once, and the second \<^verbatim>\<open>HttpError\<close> leaves the
  function as an exception: no \<^verbatim>\<open>None\<close> is returned. With a token endpoint that fails
  without the revocation marker, the library's exception leaves the function as well.
\<close>

theorem execute_with_retry_second_failure_raises:
  "fst (execute_with_retry endpoint_ok always_unauthorized (example_client example_credentials))
     = Inl (HttpError 401 ''Unauthorized'')
   \<and> api_calls (snd (execute_with_retry endpoint_ok always_unauthorized
         (example_client example_credentials))) = 2
   \<and> refresh_calls (snd (execute_with_retry endpoint_ok always_unauthorized
         (example_client example_credentials))) = 1
   \<and> fst (execute_with_retry endpoint_down always_unauthorized (example_client example_credentials))
     = Inl (OtherException ''Connection reset by peer'')"
  by (simp add: client_defs example_credentials_def example_client_def endpoint_ok_def
      endpoint_down_def always_unauthorized_def)

lemma handle_api_error_counters:
  "api_calls (handle_api_error e g) = api_calls g"
  "refresh_calls (handle_api_error e g) = refresh_calls g"
  by (auto simp: handle_api_error_def split: gmail_exn.splits)

lemma refresh_token_counters:
  "api_calls (snd (refresh_token endpoint g)) = api_calls g"
  "refresh_calls (snd (refresh_token endpoint g)) \<le> refresh_calls g + 1"
  by (auto simp: refresh_token_def split: option.splits sum.splits)

lemma invoke_counters:
  "api_calls (snd (invoke f g)) = api_calls g + 1"
  "refresh_calls (snd (invoke f g)) = refresh_calls g"
  by (simp_all add: invoke_def)

text \<open>
  The bound of the single-retry policy holds on every input: one call of
  \<^verbatim>\<open>_execute_with_retry\<close> invokes the operation at most twice and refreshes at most once.
\<close>

lemma execute_with_retry_call_bounds:
  "api_calls (snd (execute_with_retry endpoint f g)) \<le> api_calls g + 2
   \<and> refresh_calls (snd (execute_with_retry endpoint f g)) \<le> refresh_calls g + 1"
proof -
  obtain r1 g1 where i1: "invoke f g = (r1, g1)" by (cases "invoke f g") auto
  obtain r2 g2 where rt: "refresh_token endpoint g1 = (r2, g2)"
    by (cases "refresh_token endpoint g1") auto
  obtain r3 g3 where i2: "invoke f g2 = (r3, g3)" by (cases "invoke f g2") auto
  have c1: "api_calls g1 = api_calls g + 1" "refresh_calls g1 = refresh_calls g"
    using invoke_counters [of f g] i1 by simp_all
  have c2: "api_calls g2 = api_calls g1" "refresh_calls g2 \<le> refresh_calls g1 + 1"
    using refresh_token_counters [of endpoint g1] rt by simp_all
  have c3: "api_calls g3 = api_calls g2 + 1" "refresh_calls g3 = refresh_calls g2"
    using invoke_counters [of f g2] i2 by simp_all
  show ?thesis
    unfolding execute_with_retry_def
    using i1 rt i2 c1 c2 c3
    by (auto simp: handle_api_error_counters split: sum.splits gmail_exn.splits)
qed

text \<open>
  C2. On held credentials \<^verbatim>\<open>_ensure_valid_token\<close> does nothing at all (no refresh call,
  state unchanged) when the credentials are valid and expire more than 300 seconds from
  now; it performs exactly one refresh call when the expiry is in the past, when fewer
  than 300 seconds remain, when the credentials are not valid, or when there is no expiry.
\<close>

theorem ensure_valid_token_refresh_count:
  assumes "creds g = Some c"
  shows "(valid c \<and> (\<exists>t. expiry c = Some t \<and> 300 < t - utcnow) \<longrightarrow>
            ensure_valid_token endpoint utcnow g = (Inr (), g))
       \<and> ((\<exists>t. expiry c = Some t \<and> t < utcnow)
            \<or> (\<exists>t. expiry c = Some t \<and> t - utcnow < 300)
            \<or> \<not> valid c
            \<or> expiry c = None \<longrightarrow>
            refresh_calls (snd (ensure_valid_token endpoint utcnow g)) = refresh_calls g + 1)"
  using assms
  by (auto simp: ensure_valid_token_def refresh_token_def Let_def
      split: option.splits sum.splits)

theorem ensure_valid_token_refresh_count_witness:
  "ensure_valid_token endpoint_ok 0 (example_client example_credentials)
     = (Inr (), example_client example_credentials)
   \<and> refresh_calls (snd (ensure_valid_token endpoint_ok 3570 (example_client example_credentials)))
     = 1"
proof -
  have a: "creds (example_client example_credentials) = Some example_credentials"
    by (simp add: example_client_def)
  have b: "valid example_credentials" "expiry example_credentials = Some 3600"
    "refresh_calls (example_client example_credentials) = 0"
    by (simp_all add: example_credentials_def example_client_def)
  show ?thesis
    using ensure_valid_token_refresh_count [OF a, of 0 endpoint_ok]
      ensure_valid_token_refresh_count [OF a, of 3570 endpoint_ok] b
    by simp
qed

text \<open>
  C3, as the code has it. On held credentials, a failed \<^verbatim>\<open>_refresh_token\<close> raises
  \<^verbatim>\<open>GmailAuthError\<close> with the revoked-or-expired message when the failure text contains
  \<^verbatim>\<open>invalid_grant\<close> and re-raises every other failure unchanged; it records nothing in
  \<^verbatim>\<open>_auth_error\<close>. When the refresh was triggered by \<^verbatim>\<open>_ensure_valid_token\<close>, every
  failure is raised as \<^verbatim>\<open>GmailAuthError\<close> with the text \<^verbatim>\<open>Token refresh failed: ...\<close> and
  that text is stored in \<^verbatim>\<open>_auth_error\<close>. A successful \<^verbatim>\<open>_refresh_token\<close> clears
  \<^verbatim>\<open>_auth_error\<close>.
\<close>

theorem refresh_failure_handling:
  assumes "creds g = Some c"
  shows "(endpoint (refresh_calls g) c = Inl error_str \<longrightarrow>
            fst (refresh_token endpoint g) = Inl (refresh_failure error_str)
            \<and> auth_error (snd (refresh_token endpoint g)) = auth_error g
            \<and> (refresh_due c utcnow \<longrightarrow>
                 fst (ensure_valid_token endpoint utcnow g) =
                   Inl (GmailAuthError
                     (''Token refresh failed: '' @ str_exn (refresh_failure error_str)))
                 \<and> auth_error (snd (ensure_valid_token endpoint utcnow g)) =
                   Some (''Token refresh failed: '' @ str_exn (refresh_failure error_str))))
       \<and> (endpoint (refresh_calls g) c = Inr c' \<longrightarrow>
            fst (refresh_token endpoint g) = Inr ()
            \<and> auth_error (snd (refresh_token endpoint g)) = None)"
  using assms
  by (auto simp: refresh_token_def ensure_valid_token_def refresh_due_def refresh_failure_def
      Let_def)

theorem refresh_failure_handling_witness:
  "fst (refresh_token endpoint_revoked (example_client example_credentials))
     = Inl (GmailAuthError revoked_message)
   \<and> fst (ensure_valid_token endpoint_down 3570 (example_client example_credentials))
     = Inl (GmailAuthError ''Token refresh failed: Connection reset by peer'')
   \<and> auth_error (snd (ensure_valid_token endpoint_down 3570 (example_client example_credentials)))
     = Some ''Token refresh failed: Connection reset by peer''
   \<and> auth_error (snd (refresh_token endpoint_ok
        ((example_client example_credentials)\<lparr>auth_error := Some ''Token refresh failed: x''\<rparr>)))
     = None"
proof -
  let ?g = "example_client example_credentials"
  let ?g' = "?g\<lparr>auth_error := Some ''Token refresh failed: x''\<rparr>"
  have a: "creds ?g = Some example_credentials" "creds ?g' = Some example_credentials"
    by (simp_all add: example_client_def)
  have b: "endpoint_revoked (refresh_calls ?g) example_credentials
      = Inl ''invalid_grant: Token has been expired or revoked.''"
    "endpoint_down (refresh_calls ?g) example_credentials = Inl ''Connection reset by peer''"
    "endpoint_ok (refresh_calls ?g') example_credentials
      = Inr (example_credentials\<lparr>token := Some ''ya29.new'', expiry := Some 7200, valid := True\<rparr>)"
    by (simp_all add: endpoint_revoked_def endpoint_down_def endpoint_ok_def)
  have c: "refresh_due example_credentials 3570"
    by (simp add: refresh_due_def example_credentials_def)
  have d: "refresh_failure ''invalid_grant: Token has been expired or revoked.''
      = GmailAuthError revoked_message"
    "refresh_failure ''Connection reset by peer'' = OtherException ''Connection reset by peer''"
    by (simp_all add: refresh_failure_def)
  show ?thesis
    using refresh_failure_handling [OF a(1), of endpoint_revoked
        "''invalid_grant: Token has been expired or revoked.''" 3570]
      refresh_failure_handling [OF a(1), of endpoint_down "''Connection reset by peer''" 3570]
      refresh_failure_handling [OF a(2), of endpoint_ok _ 3570
        "example_credentials\<lparr>token := Some ''ya29.new'', expiry := Some 7200, valid := True\<rparr>"]
      b c d
    by simp
qed

text \<open>
  The claim as stated fails: a refresh that fails with a connection error leaves
  \<^verbatim>\<open>_refresh_token\<close> as the library's own exception, not as \<^verbatim>\<open>GmailAuthError\<close>, and no
  reason is recorded.
\<close>

theorem refresh_reraises_other_failures_counterexample:
  "fst (refresh_token endpoint_down (example_client example_credentials))
     = Inl (OtherException ''Connection reset by peer'')
   \<and> auth_error (snd (refresh_token endpoint_down (example_client example_credentials))) = None"
  by (simp add: client_defs example_credentials_def example_client_def endpoint_down_def)

lemma resolve_secrets_file_without_path:
  "resolve_secrets_file process_env files None = Inl (AttributeError no_environ_message)"
  by (simp add: resolve_secrets_file_def resolve_from_environment_def sys_environ_def)

text \<open>
  C9, at an input where the code leaves the claim. No explicit path is given,
  \<^verbatim>\<open>KIMI_VAULT_SECRETS\<close> is set and names an existing file: \<^verbatim>\<open>_resolve_secrets_file\<close>
  raises \<^verbatim>\<open>AttributeError\<close> and returns no path. By the lemma above it does so for every
  process environment and every set of files.
\<close>

theorem resolve_secrets_file_raises_attribute_error:
  "secrets_environment ''KIMI_VAULT_SECRETS'' = Some ''/run/user/1000/secrets.json''
   \<and> secrets_files ''/run/user/1000/secrets.json'' = Some (''{}'', 384)
   \<and> resolve_secrets_file secrets_environment secrets_files None
       = Inl (AttributeError no_environ_message)"
  by (simp add: resolve_secrets_file_def resolve_from_environment_def sys_environ_def
      secrets_environment_def secrets_files_def)

end
